theory Spec2Isabelle
  imports Complex_Main
begin

section \<open>JavaScript values\<close>

text \<open>
  The scoring engine of the repository is the file with the food and beverage ladders
  (\<^verbatim>\<open>parseNutritionValue\<close>, \<^verbatim>\<open>calculateNegativePoints\<close>,
  \<^verbatim>\<open>calculatePositivePoints\<close>, \<^verbatim>\<open>calculateHealthScore\<close>). Its input is a JSON
  request body, so a raw field value is any JSON value, or \<open>undefined\<close> for a missing
  field.

  Numbers are modelled as exact reals, plus \<open>NaN\<close>, which \<^verbatim>\<open>parseFloat\<close> returns on a
  run of dots. Rounding of IEEE doubles is not modelled. Strings are lists of code
  units below 256; every character class of the source is ASCII.
\<close>

datatype jsnum = NaN | Fin real

datatype jsval =
    JUndefined
  | JNull
  | JBool bool
  | JNum real
  | JStr string
  | JArr "jsval list"
  | JObj "(string \<times> jsval) list"

text \<open>\<^verbatim>\<open>!v\<close> is false exactly on the truthy values.\<close>

fun truthy :: "jsval \<Rightarrow> bool" where
  "truthy JUndefined = False"
| "truthy JNull = False"
| "truthy (JBool b) = b"
| "truthy (JNum x) = (x \<noteq> 0)"
| "truthy (JStr s) = (s \<noteq> [])"
| "truthy (JArr vs) = True"
| "truthy (JObj kvs) = True"

text \<open>\<^verbatim>\<open>a || b\<close>\<close>

definition jor :: "jsval \<Rightarrow> jsval \<Rightarrow> jsval" where
  "jor a b = (if truthy a then a else b)"

text \<open>
  \<^verbatim>\<open>nutrition.key\<close> on the own properties of the request's \<^verbatim>\<open>nutrition\<close> object.
  A key occurs once in the list; a missing key reads as \<open>undefined\<close>.
\<close>

definition get_prop :: "(string \<times> jsval) list \<Rightarrow> string \<Rightarrow> jsval" where
  "get_prop obj k = (case map_of obj k of None \<Rightarrow> JUndefined | Some v \<Rightarrow> v)"

text \<open>
  \<^verbatim>\<open>v?.key\<close>: \<open>undefined\<close> on \<open>undefined\<close> and \<open>null\<close>, and on every value that is
  not an object with that property.
\<close>

fun opt_prop :: "jsval \<Rightarrow> string \<Rightarrow> jsval" where
  "opt_prop (JObj kvs) k = get_prop kvs k"
| "opt_prop v k = JUndefined"

fun join_comma :: "string list \<Rightarrow> string" where
  "join_comma [] = []"
| "join_comma [s] = s"
| "join_comma (s # t # ss) = s @ '','' @ join_comma (t # ss)"

text \<open>
  \<^verbatim>\<open>v.toString()\<close> on a truthy value. The decimal rendering of a number is the parameter
  \<open>nts\<close>: it depends on the double, which the model does not have. An array joins its
  elements with commas, \<open>null\<close> and \<open>undefined\<close> elements as the empty string. The two
  equations for \<open>undefined\<close> and \<open>null\<close> are never reached: both are falsy.
  The raw values of a nutrition record are absent, numbers or strings; an object that
  carries an entry named \<^verbatim>\<open>toString\<close> of its own, on which the call would throw, is
  not among them and is rendered like every other object.
\<close>

fun toString :: "(real \<Rightarrow> string) \<Rightarrow> jsval \<Rightarrow> string" where
  "toString nts JUndefined = ''undefined''"
| "toString nts JNull = ''null''"
| "toString nts (JBool b) = (if b then ''true'' else ''false'')"
| "toString nts (JNum x) = nts x"
| "toString nts (JStr s) = s"
| "toString nts (JArr vs) =
     join_comma (map (\<lambda>v. if v = JUndefined \<or> v = JNull then [] else toString nts v) vs)"
| "toString nts (JObj kvs) = ''[object Object]''"

section \<open>String helpers of parseNutritionValue\<close>

definition is_ws :: "char \<Rightarrow> bool" where
  "is_ws c = ((of_char c :: nat) \<in> {9, 10, 11, 12, 13, 32, 160})"

definition trim :: "string \<Rightarrow> string" where
  "trim s = rev (dropWhile is_ws (rev (dropWhile is_ws s)))"

definition is_digit :: "char \<Rightarrow> bool" where
  "is_digit c = (48 \<le> (of_char c :: nat) \<and> (of_char c :: nat) \<le> 57)"

text \<open>The class \<^verbatim>\<open>[0-9.]\<close>\<close>

definition is_num_char :: "char \<Rightarrow> bool" where
  "is_num_char c = (is_digit c \<or> c = CHR ''.'')"

text \<open>The class \<^verbatim>\<open>[a-zA-Z%]\<close>\<close>

definition is_unit_char :: "char \<Rightarrow> bool" where
  "is_unit_char c =
     ((97 \<le> (of_char c :: nat) \<and> (of_char c :: nat) \<le> 122)
      \<or> (65 \<le> (of_char c :: nat) \<and> (of_char c :: nat) \<le> 90)
      \<or> c = CHR ''%'')"

text \<open>
  \<^verbatim>\<open>strValue.match(/([0-9.]+)([a-zA-Z%]*)/)\<close>: the pattern is not anchored, so the match
  starts at the first character of \<^verbatim>\<open>[0-9.]\<close>; both groups are greedy and the second
  may be empty. The result is \<open>None\<close> for \<^verbatim>\<open>null\<close>, else the two groups.
\<close>

definition matches :: "string \<Rightarrow> (string \<times> string) option" where
  "matches s =
     (let t = dropWhile (\<lambda>c. \<not> is_num_char c) s
      in if t = [] then None
         else Some (takeWhile is_num_char t, takeWhile is_unit_char (dropWhile is_num_char t)))"

definition digit_val :: "char \<Rightarrow> nat" where
  "digit_val c = of_char c - 48"

definition dec :: "string \<Rightarrow> nat" where
  "dec ds = foldl (\<lambda>a c. 10 * a + digit_val c) 0 ds"

text \<open>
  \<^verbatim>\<open>parseFloat\<close> on a string of \<^verbatim>\<open>[0-9.]+\<close> (no sign, no exponent, no blank can occur):
  the longest prefix that is a decimal literal, that is the leading digits, and the
  digits after a first dot; \<open>NaN\<close> when both are empty.
\<close>

definition parseFloat :: "string \<Rightarrow> jsnum" where
  "parseFloat m =
     (let ip = takeWhile is_digit m;
          fp = (case dropWhile is_digit m of
                  [] \<Rightarrow> []
                | c # r \<Rightarrow> if c = CHR ''.'' then takeWhile is_digit r else [])
      in if ip = [] \<and> fp = [] then NaN
         else Fin (real (dec ip) + real (dec fp) / 10 ^ length fp))"

definition lower_char :: "char \<Rightarrow> char" where
  "lower_char c =
     (if 65 \<le> (of_char c :: nat) \<and> (of_char c :: nat) \<le> 90
      then char_of ((of_char c :: nat) + 32) else c)"

text \<open>\<^verbatim>\<open>toLowerCase\<close> on the unit group, whose letters are ASCII.\<close>

definition toLowerCase :: "string \<Rightarrow> string" where
  "toLowerCase s = map lower_char s"

section \<open>Arithmetic and comparison with NaN\<close>

fun jdiv :: "jsnum \<Rightarrow> real \<Rightarrow> jsnum" where
  "jdiv NaN d = NaN"
| "jdiv (Fin x) d = Fin (x / d)"

fun jmul :: "jsnum \<Rightarrow> real \<Rightarrow> jsnum" where
  "jmul NaN d = NaN"
| "jmul (Fin x) d = Fin (x * d)"

text \<open>\<^verbatim>\<open>x > t\<close> and \<^verbatim>\<open>x >= t\<close>: false when \<open>x\<close> is \<open>NaN\<close>.\<close>

fun jgt :: "jsnum \<Rightarrow> real \<Rightarrow> bool" where
  "jgt NaN t = False"
| "jgt (Fin x) t = (x > t)"

fun jge :: "jsnum \<Rightarrow> real \<Rightarrow> bool" where
  "jge NaN t = False"
| "jge (Fin x) t = (x \<ge> t)"

section \<open>The value normalizer\<close>

definition parseNutritionValue :: "(real \<Rightarrow> string) \<Rightarrow> jsval \<Rightarrow> string \<Rightarrow> jsnum" where
  "parseNutritionValue nts rawValue nutrientType =
     (if \<not> truthy rawValue then Fin 0
      else
        let strValue = trim (toString nts rawValue) in
        case matches strValue of
          None \<Rightarrow> Fin 0
        | Some (m1, m2) \<Rightarrow>
            let val = parseFloat m1;
                unit = toLowerCase m2
            in if nutrientType = ''energy'' then
                 (if unit = ''kj'' then jdiv val 4.184 else val)
               else if nutrientType = ''sodium'' then
                 (if unit = ''g'' then jmul val 1000 else val)
               else if nutrientType = ''mass'' then
                 (if unit = ''mg'' then jdiv val 1000
                  else if unit = ''mcg'' then jdiv val 1000000
                  else val)
               else if nutrientType = ''percentage'' then
                 (if unit = ''%'' then val else Fin 0)
               else val)"

section \<open>The point scorer\<close>

text \<open>A default parameter \<^verbatim>\<open>isBeverage = 0\<close>: \<open>undefined\<close> is replaced by \<open>0\<close>.\<close>

definition default_zero :: "jsval \<Rightarrow> jsval" where
  "default_zero v = (if v = JUndefined then JNum 0 else v)"

text \<open>
  The four ladders \<^verbatim>\<open>energyThresholds\<close>, \<^verbatim>\<open>sugarsThresholds\<close>, \<^verbatim>\<open>satFatThresholds\<close>,
  \<^verbatim>\<open>sodiumThresholds\<close>, assigned by the one \<^verbatim>\<open>if (isBeverage)\<close>.
\<close>

definition thresholds :: "jsval \<Rightarrow> real list \<times> real list \<times> real list \<times> real list" where
  "thresholds isBeverage =
     (if truthy isBeverage then
        ([7.2, 14.3, 21.5, 28.5, 35.9, 43.0, 50.2, 57.4, 64.5],
         [0, 1.5, 3.0, 4.5, 6.0, 7.5, 9.0, 10.5, 12.0, 13.5],
         [0, 0.1, 0.2, 0.3, 0.4, 0.5, 0.6, 0.7, 0.8, 0.9, 1.0],
         [0, 45, 90, 135, 180, 225, 270, 315, 360, 405])
      else
        ([80, 160, 240, 320, 400, 480, 560, 640, 720, 800],
         [4.5, 9.0, 13.5, 18.0, 22.5, 27.0, 31.0, 36.0, 40.0, 45.0],
         [1, 2, 3, 4, 5, 6, 7, 8, 9, 10],
         [90, 180, 270, 360, 450, 540, 630, 720, 810, 900]))"

text \<open>\<^verbatim>\<open>ts.filter(t => x > t).length\<close>\<close>

definition exceeded :: "jsnum \<Rightarrow> real list \<Rightarrow> nat" where
  "exceeded x ts = length (filter (\<lambda>t. jgt x t) ts)"

definition calculateNegativePoints ::
  "(real \<Rightarrow> string) \<Rightarrow> (string \<times> jsval) list \<Rightarrow> jsval \<Rightarrow> nat" where
  "calculateNegativePoints nts nutrition isBeverage0 =
     (let isBeverage = default_zero isBeverage0;
          energy = parseNutritionValue nts (jor (get_prop nutrition ''energy'') (JStr ''0'')) ''energy'';
          sugarsValue = jor (jor (get_prop nutrition ''TotalSugars'') (get_prop nutrition ''sugars''))
                            (JStr ''0'');
          sugars = parseNutritionValue nts sugarsValue ''mass'';
          saturatedFat =
            parseNutritionValue nts (jor (get_prop nutrition ''saturatedFat'') (JStr ''0'')) ''mass'';
          sodium = parseNutritionValue nts (jor (get_prop nutrition ''sodium'') (JStr ''0'')) ''sodium''
      in case thresholds isBeverage of
           (energyThresholds, sugarsThresholds, satFatThresholds, sodiumThresholds) \<Rightarrow>
             let energyPoints = exceeded energy energyThresholds;
                 sugarsPoints = exceeded sugars sugarsThresholds;
                 satFatPoints = exceeded saturatedFat satFatThresholds;
                 sodiumPoints = exceeded sodium sodiumThresholds
             in energyPoints + sugarsPoints + satFatPoints + sodiumPoints)"

record positive =
  fvln :: nat
  fiber :: nat
  protein :: nat
  total :: nat

definition calculatePositivePoints ::
  "(real \<Rightarrow> string) \<Rightarrow> (string \<times> jsval) list \<Rightarrow> jsval \<Rightarrow> positive" where
  "calculatePositivePoints nts nutrition isBeverage0 =
     (let fiberValue = jor (jor (get_prop nutrition ''dietaryfiber'') (get_prop nutrition ''fiber''))
                           (JStr ''0'');
          fvlnQ = parseNutritionValue nts
                    (jor (get_prop nutrition ''fruitsVegetablesNuts'') (JStr ''0'')) ''percentage'';
          fiberQ = parseNutritionValue nts fiberValue ''mass'';
          proteinQ = parseNutritionValue nts (jor (get_prop nutrition ''protein'') (JStr ''0'')) ''mass'';
          fvlnPoints = (if jge fvlnQ 80 then 5 else if jge fvlnQ 60 then 2
                        else if jge fvlnQ 40 then 1 else 0);
          fiberThresholds = [0.7, 1.4, 2.1, 2.8, 3.5];
          fiberPoints = exceeded fiberQ fiberThresholds;
          proteinThresholds = [1.6, 3.2, 4.8, 6.4, 8.0];
          proteinPoints = exceeded proteinQ proteinThresholds
      in \<lparr> fvln = fvlnPoints, fiber = fiberPoints, protein = proteinPoints,
           total = fvlnPoints + fiberPoints + proteinPoints \<rparr>)"

section \<open>The score aggregator\<close>

record calculationDetails =
  negativePoints :: nat
  positivePoints :: nat
  fsaScore :: int

record result =
  healthScore :: int
  calculationDetails :: calculationDetails

text \<open>\<^verbatim>\<open>Math.round\<close>: the nearest integer, a half rounded up.\<close>

definition Math_round :: "real \<Rightarrow> int" where
  "Math_round x = \<lfloor>x + 1 / 2\<rfloor>"

text \<open>The local \<^verbatim>\<open>normalized\<close> of calculateHealthScore, as a function of \<^verbatim>\<open>fsaScore\<close>.\<close>

definition normalized :: "int \<Rightarrow> real" where
  "normalized fsa =
     (let minScore = - 15 :: real;
          maxScore = 40 :: real
      in ((real_of_int fsa - minScore) / (maxScore - minScore)) * 100)"

definition calculateHealthScore ::
  "(real \<Rightarrow> string) \<Rightarrow> (string \<times> jsval) list \<Rightarrow> jsval \<Rightarrow> result" where
  "calculateHealthScore nts nutrition isBeverage0 =
     (let isBeverage = default_zero isBeverage0;
          N = calculateNegativePoints nts nutrition isBeverage;
          P = calculatePositivePoints nts nutrition isBeverage;
          fsa = (if N < 11 then int N - int (total P)
                 else if fvln P = 5 then int N - int (total P)
                 else int N - (int (fvln P) + int (fiber P)));
          hs = Math_round (100 - min 100 (max 0 (normalized fsa)))
      in \<lparr> healthScore = hs,
           calculationDetails =
             \<lparr> negativePoints = N, positivePoints = total P, fsaScore = fsa \<rparr> \<rparr>)"

section \<open>The variant that reads the record from the document store\<close>

text \<open>
  A second file of the repository holds an earlier variant of the same functions: its
  \<^verbatim>\<open>parseNutritionValue\<close> has no \<^verbatim>\<open>mcg\<close> branch, and its \<^verbatim>\<open>calculateNegativePoints\<close>
  takes no category flag and reads saturated fat through
  \<^verbatim>\<open>nutrition.customNutritionFields?.saturatedFat\<close>.
\<close>

definition parseNutritionValue_stored :: "(real \<Rightarrow> string) \<Rightarrow> jsval \<Rightarrow> string \<Rightarrow> jsnum" where
  "parseNutritionValue_stored nts rawValue nutrientType =
     (if \<not> truthy rawValue then Fin 0
      else
        let strValue = trim (toString nts rawValue) in
        case matches strValue of
          None \<Rightarrow> Fin 0
        | Some (m1, m2) \<Rightarrow>
            let val = parseFloat m1;
                unit = toLowerCase m2
            in if nutrientType = ''energy'' then
                 (if unit = ''kj'' then jdiv val 4.184 else val)
               else if nutrientType = ''sodium'' then
                 (if unit = ''g'' then jmul val 1000 else val)
               else if nutrientType = ''mass'' then
                 (if unit = ''mg'' then jdiv val 1000 else val)
               else if nutrientType = ''percentage'' then
                 (if unit = ''%'' then val else Fin 0)
               else val)"

definition calculateNegativePoints_stored ::
  "(real \<Rightarrow> string) \<Rightarrow> (string \<times> jsval) list \<Rightarrow> nat" where
  "calculateNegativePoints_stored nts nutrition =
     (let sugarsValue = jor (jor (get_prop nutrition ''TotalSugars'') (get_prop nutrition ''sugars''))
                            (JStr ''0'');
          energy = parseNutritionValue_stored nts
                     (jor (get_prop nutrition ''energy'') (JStr ''0'')) ''energy'';
          sugars = parseNutritionValue_stored nts sugarsValue ''mass'';
          saturatedFat =
            parseNutritionValue_stored nts
              (jor (opt_prop (get_prop nutrition ''customNutritionFields'') ''saturatedFat'')
                   (JStr ''0'')) ''mass'';
          sodium = parseNutritionValue_stored nts
                     (jor (get_prop nutrition ''sodium'') (JStr ''0'')) ''sodium'';
          energyThresholds = [80, 160, 240, 320, 400, 480, 560, 640, 720, 800];
          energyPoints = exceeded energy energyThresholds;
          sugarsThresholds = [7.2, 14.3, 21.5, 28.5, 35.9, 43.0, 50.2, 57.4, 64.5];
          sugarsPoints = exceeded sugars sugarsThresholds;
          satFatThresholds = [4.5, 9.0, 13.5, 18.0, 22.5, 27.0, 31.0, 36.0, 40.0, 45.0];
          satFatPoints = exceeded saturatedFat satFatThresholds;
          sodiumThresholds = [90, 180, 270, 360, 450, 540, 630, 720, 810, 900];
          sodiumPoints = exceeded sodium sodiumThresholds
      in energyPoints + sugarsPoints + satFatPoints + sodiumPoints)"

section \<open>Vocabulary of the properties\<close>

text \<open>
  The four nutrients of the negative points, the fields from which
  calculateNegativePoints resolves each, and the normalized quantity it computes for
  each (the locals \<^verbatim>\<open>energy\<close>, \<^verbatim>\<open>sugars\<close>, \<^verbatim>\<open>saturatedFat\<close>, \<^verbatim>\<open>sodium\<close>).
\<close>

datatype nutrient = Energy | Sugars | SaturatedFat | Sodium

fun fields_of :: "nutrient \<Rightarrow> string set" where
  "fields_of Energy = {''energy''}"
| "fields_of Sugars = {''TotalSugars'', ''sugars''}"
| "fields_of SaturatedFat = {''saturatedFat''}"
| "fields_of Sodium = {''sodium''}"

fun quantity :: "(real \<Rightarrow> string) \<Rightarrow> nutrient \<Rightarrow> (string \<times> jsval) list \<Rightarrow> jsnum" where
  "quantity nts Energy nutrition =
     parseNutritionValue nts (jor (get_prop nutrition ''energy'') (JStr ''0'')) ''energy''"
| "quantity nts Sugars nutrition =
     parseNutritionValue nts
       (jor (jor (get_prop nutrition ''TotalSugars'') (get_prop nutrition ''sugars'')) (JStr ''0''))
       ''mass''"
| "quantity nts SaturatedFat nutrition =
     parseNutritionValue nts (jor (get_prop nutrition ''saturatedFat'') (JStr ''0'')) ''mass''"
| "quantity nts Sodium nutrition =
     parseNutritionValue nts (jor (get_prop nutrition ''sodium'') (JStr ''0'')) ''sodium''"

text \<open>\<^verbatim>\<open>x <= y\<close> on numbers: false when either is \<open>NaN\<close>.\<close>

fun jle :: "jsnum \<Rightarrow> jsnum \<Rightarrow> bool" where
  "jle (Fin x) (Fin y) = (x \<le> y)"
| "jle x y = False"

section \<open>Concrete inputs\<close>

text \<open>
  The decimal rendering of a number that the concrete inputs below use for the
  parameter \<open>nts\<close>. It is \<^verbatim>\<open>Number.prototype.toString\<close> on the non-negative integers
  below \<open>10^21\<close>; no other number occurs in those inputs.
\<close>

fun nat_str :: "nat \<Rightarrow> string" where
  "nat_str n =
     (if n < 10 then [''0123456789'' ! n]
      else nat_str (n div 10) @ [''0123456789'' ! (n mod 10)])"

definition integer_toString :: "real \<Rightarrow> string" where
  "integer_toString x = nat_str (nat \<lfloor>x\<rfloor>)"

definition food :: jsval where
  "food = JNum 0"

definition beverage :: jsval where
  "beverage = JNum 1"

text \<open>Heavily penalized, protein but no produce content.\<close>

definition capped_record :: "(string \<times> jsval) list" where
  "capped_record =
     [(''energy'', JNum 900), (''sugars'', JStr ''31.2g''), (''protein'', JStr ''9g'')]"

text \<open>The same load with the produce content at its maximum.\<close>

definition produce_record :: "(string \<times> jsval) list" where
  "produce_record =
     [(''energy'', JNum 900), (''sugars'', JStr ''31.2g''), (''protein'', JStr ''9g''),
      (''fruitsVegetablesNuts'', JStr ''80%'')]"

text \<open>The literal record of the specification's end-to-end example.\<close>

definition example_record :: "(string \<times> jsval) list" where
  "example_record =
     [(''energy'', JStr ''200''), (''sugars'', JStr ''10g''), (''saturatedFat'', JStr ''2''),
      (''sodium'', JStr ''300''), (''fiber'', JStr ''3g''), (''protein'', JStr ''5g''),
      (''fruitsVegetablesNuts'', JStr ''70%'')]"

definition satfat_top_level :: "(string \<times> jsval) list" where
  "satfat_top_level = [(''saturatedFat'', JStr ''5g'')]"

definition satfat_nested :: "(string \<times> jsval) list" where
  "satfat_nested = [(''customNutritionFields'', JObj [(''saturatedFat'', JStr ''5g'')])]"

definition satfat_both :: "(string \<times> jsval) list" where
  "satfat_both =
     [(''saturatedFat'', JStr ''5g''),
      (''customNutritionFields'', JObj [(''saturatedFat'', JStr ''9g'')])]"

definition satfat_nested_other :: "(string \<times> jsval) list" where
  "satfat_nested_other =
     [(''customNutritionFields'', JObj [(''saturatedFat'', JStr ''5g'')]),
      (''saturatedFat'', JStr ''9g'')]"

definition sugars_5 :: "(string \<times> jsval) list" where
  "sugars_5 = [(''sugars'', JStr ''5g'')]"

definition sugars_31 :: "(string \<times> jsval) list" where
  "sugars_31 = [(''sugars'', JStr ''31.2g'')]"

section \<open>Evaluation at concrete inputs\<close>

declare nat_str.simps [simp del]

declare quantity.simps [simp del]

lemmas string_eval =
  trim_def is_ws_def matches_def is_num_char_def is_digit_def is_unit_char_def
  parseFloat_def dec_def digit_val_def toLowerCase_def lower_char_def char_of_eq_iff

lemmas engine_eval =
  parseNutritionValue_def jor_def get_prop_def default_zero_def thresholds_def exceeded_def
  calculateNegativePoints_def calculatePositivePoints_def calculateHealthScore_def
  normalized_def Math_round_def Let_def

lemmas input_eval =
  integer_toString_def nat_str.simps food_def beverage_def capped_record_def
  produce_record_def example_record_def satfat_top_level_def satfat_nested_def
  satfat_both_def satfat_nested_other_def sugars_5_def sugars_31_def

lemma capped_negative: "calculateNegativePoints integer_toString capped_record food = 17"
  by (simp add: engine_eval string_eval input_eval)

lemma capped_positive:
  "calculatePositivePoints integer_toString capped_record food =
     \<lparr>fvln = 0, fiber = 0, protein = 5, total = 5\<rparr>"
  by (simp add: engine_eval string_eval input_eval)

lemma produce_negative: "calculateNegativePoints integer_toString produce_record food = 17"
  by (simp add: engine_eval string_eval input_eval)

lemma produce_positive:
  "calculatePositivePoints integer_toString produce_record food =
     \<lparr>fvln = 5, fiber = 0, protein = 5, total = 10\<rparr>"
  by (simp add: engine_eval string_eval input_eval)

lemma example_negative: "calculateNegativePoints integer_toString example_record food = 8"
  by (simp add: engine_eval string_eval input_eval)

lemma example_positive:
  "calculatePositivePoints integer_toString example_record food =
     \<lparr>fvln = 2, fiber = 4, protein = 3, total = 9\<rparr>"
  by (simp add: engine_eval string_eval input_eval)

lemma example_result:
  "calculateHealthScore integer_toString example_record food =
     \<lparr>healthScore = 75,
      calculationDetails = \<lparr>negativePoints = 8, positivePoints = 9, fsaScore = - 1\<rparr>\<rparr>"
  by (simp add: engine_eval string_eval input_eval)

section \<open>Bounds of the tallies\<close>

lemma exceeded_le_length: "exceeded x ts \<le> length ts"
  by (simp add: exceeded_def)

lemma exceeded_five: "exceeded x [a, b, c, d, e] \<le> 5"
  using exceeded_le_length [of x "[a, b, c, d, e]"] by simp

lemma thresholds_lengths:
  "thresholds b = (e, s, f, n) \<Longrightarrow> length e + length s + length f + length n = 40"
  by (auto simp: thresholds_def split: if_splits)

lemma negative_le_40: "calculateNegativePoints nts nutrition b \<le> 40"
proof -
  obtain e s f n where th: "thresholds (default_zero b) = (e, s, f, n)"
    by (metis prod_cases4)
  have len: "length e + length s + length f + length n = 40"
    using th by (rule thresholds_lengths)
  have "exceeded x1 e + exceeded x2 s + exceeded x3 f + exceeded x4 n \<le> 40" for x1 x2 x3 x4
    using exceeded_le_length [of x1 e] exceeded_le_length [of x2 s]
      exceeded_le_length [of x3 f] exceeded_le_length [of x4 n] len
    by linarith
  then show ?thesis
    by (simp add: calculateNegativePoints_def Let_def th)
qed

lemma positive_parts:
  "fvln (calculatePositivePoints nts nutrition b) \<in> {0, 1, 2, 5}"
  "fiber (calculatePositivePoints nts nutrition b) \<le> 5"
  "protein (calculatePositivePoints nts nutrition b) \<le> 5"
  "total (calculatePositivePoints nts nutrition b) =
     fvln (calculatePositivePoints nts nutrition b)
     + fiber (calculatePositivePoints nts nutrition b)
     + protein (calculatePositivePoints nts nutrition b)"
  by (simp_all add: calculatePositivePoints_def Let_def exceeded_five)

lemma positive_le_15: "total (calculatePositivePoints nts nutrition b) \<le> 15"
  using positive_parts [of nts nutrition b] by auto

lemma Math_round_range:
  "0 \<le> x \<Longrightarrow> x \<le> 100 \<Longrightarrow> 0 \<le> Math_round x \<and> Math_round x \<le> 100"
  unfolding Math_round_def by (simp add: le_floor_iff floor_le_iff)

section \<open>The result record, field by field\<close>

lemma default_zero_idem: "default_zero (default_zero b) = default_zero b"
  by (simp add: default_zero_def)

lemma negative_default:
  "calculateNegativePoints nts n (default_zero b) = calculateNegativePoints nts n b"
  by (simp add: calculateNegativePoints_def default_zero_idem)

lemma positive_default:
  "calculatePositivePoints nts n (default_zero b) = calculatePositivePoints nts n b"
  by (simp add: calculatePositivePoints_def)

lemma details_of:
  "negativePoints (calculationDetails (calculateHealthScore nts n b))
     = calculateNegativePoints nts n b"
  "positivePoints (calculationDetails (calculateHealthScore nts n b))
     = total (calculatePositivePoints nts n b)"
  by (simp_all add: calculateHealthScore_def Let_def negative_default positive_default)

lemma healthScore_of:
  "healthScore (calculateHealthScore nts n b) =
     Math_round (100 - min 100 (max 0
       (normalized (fsaScore (calculationDetails (calculateHealthScore nts n b))))))"
  by (simp add: calculateHealthScore_def Let_def)

lemma fsaScore_of:
  "fsaScore (calculationDetails (calculateHealthScore nts n b)) =
     (if calculateNegativePoints nts n b < 11
      then int (calculateNegativePoints nts n b) - int (total (calculatePositivePoints nts n b))
      else if fvln (calculatePositivePoints nts n b) = 5
      then int (calculateNegativePoints nts n b) - int (total (calculatePositivePoints nts n b))
      else int (calculateNegativePoints nts n b)
           - (int (fvln (calculatePositivePoints nts n b))
              + int (fiber (calculatePositivePoints nts n b))))"
  by (simp add: calculateHealthScore_def Let_def negative_default positive_default)

lemma fsa_bounds:
  "- 15 \<le> fsaScore (calculationDetails (calculateHealthScore nts n b))"
  "fsaScore (calculationDetails (calculateHealthScore nts n b)) \<le> 40"
  using negative_le_40 [of nts n b] positive_parts [of nts n b]
  by (auto simp: fsaScore_of)

lemma fsa_cap_branch_bound:
  assumes "11 \<le> calculateNegativePoints nts n b"
    and "fvln (calculatePositivePoints nts n b) < 5"
  shows "4 \<le> fsaScore (calculationDetails (calculateHealthScore nts n b))"
  using assms positive_parts [of nts n b]
  by (auto simp: fsaScore_of)

lemma normalized_range:
  assumes "- 15 \<le> f" and "f \<le> 40"
  shows "0 \<le> normalized f \<and> normalized f \<le> 100"
proof -
  have "0 \<le> real_of_int f + 15" "real_of_int f + 15 \<le> 55"
    using assms by linarith+
  then show ?thesis
    by (simp add: normalized_def Let_def field_simps)
qed

section \<open>Range of the result\<close>

text \<open>
  C1. For every nutrition record and every category flag, the result of
  calculateHealthScore has a health score between 0 and 100, between 0 and 40 negative
  points and between 0 and 15 positive points; the health score is an integer (its
  type here), the value of \<^verbatim>\<open>Math.round\<close>.
\<close>

theorem health_score_ranges:
  "0 \<le> healthScore (calculateHealthScore nts nutrition isBeverage)
   \<and> healthScore (calculateHealthScore nts nutrition isBeverage) \<le> 100
   \<and> 0 \<le> negativePoints (calculationDetails (calculateHealthScore nts nutrition isBeverage))
   \<and> negativePoints (calculationDetails (calculateHealthScore nts nutrition isBeverage)) \<le> 40
   \<and> 0 \<le> positivePoints (calculationDetails (calculateHealthScore nts nutrition isBeverage))
   \<and> positivePoints (calculationDetails (calculateHealthScore nts nutrition isBeverage)) \<le> 15"
proof -
  let ?x = "100 - min 100 (max 0
       (normalized (fsaScore (calculationDetails (calculateHealthScore nts nutrition isBeverage)))))"
  have "0 \<le> ?x" "?x \<le> 100" by simp_all
  then have "0 \<le> Math_round ?x \<and> Math_round ?x \<le> 100" by (rule Math_round_range)
  then show ?thesis
    by (simp add: healthScore_of details_of negative_le_40 positive_le_15)
qed

theorem health_score_ranges_witness:
  "healthScore (calculateHealthScore integer_toString example_record food) = 75
   \<and> 0 \<le> healthScore (calculateHealthScore integer_toString example_record food)
   \<and> healthScore (calculateHealthScore integer_toString example_record food) \<le> 100
   \<and> negativePoints (calculationDetails
        (calculateHealthScore integer_toString example_record food)) \<le> 40
   \<and> positivePoints (calculationDetails
        (calculateHealthScore integer_toString example_record food)) \<le> 15"
  using health_score_ranges [of integer_toString example_record food]
  by (simp add: example_result)

section \<open>The cap rule\<close>

text \<open>
  C2. With N the negative points and P the positive breakdown: below 11 negative points
  the FSA score is N minus P.total; from 11 on it is N minus P.total when the produce
  points are 5, and N minus the produce and fiber points when they are below 5, so the
  protein points are left out of the offset.
\<close>

theorem fsa_cap_rule:
  "let N = calculateNegativePoints nts nutrition isBeverage;
       P = calculatePositivePoints nts nutrition isBeverage;
       f = fsaScore (calculationDetails (calculateHealthScore nts nutrition isBeverage))
   in (N < 11 \<longrightarrow> f = int N - int (total P))
      \<and> (11 \<le> N \<and> fvln P = 5 \<longrightarrow> f = int N - int (total P))
      \<and> (11 \<le> N \<and> fvln P < 5 \<longrightarrow>
            f = int N - (int (fvln P) + int (fiber P))
            \<and> f = int N - int (total P) + int (protein P))"
  using positive_parts(4) [of nts nutrition isBeverage]
  by (simp add: Let_def fsaScore_of)

theorem fsa_cap_rule_witness:
  "calculateNegativePoints integer_toString example_record food < 11
   \<and> fsaScore (calculationDetails (calculateHealthScore integer_toString example_record food))
       = 8 - 9
   \<and> 11 \<le> calculateNegativePoints integer_toString produce_record food
   \<and> fvln (calculatePositivePoints integer_toString produce_record food) = 5
   \<and> fsaScore (calculationDetails (calculateHealthScore integer_toString produce_record food))
       = 17 - 10
   \<and> 11 \<le> calculateNegativePoints integer_toString capped_record food
   \<and> fvln (calculatePositivePoints integer_toString capped_record food) < 5
   \<and> protein (calculatePositivePoints integer_toString capped_record food) = 5
   \<and> fsaScore (calculationDetails (calculateHealthScore integer_toString capped_record food))
       = 17 - (0 + 0)"
  using fsa_cap_rule [of integer_toString example_record food]
    fsa_cap_rule [of integer_toString produce_record food]
    fsa_cap_rule [of integer_toString capped_record food]
  by (simp add: Let_def example_negative example_positive produce_negative produce_positive
      capped_negative capped_positive)

section \<open>The rescaling domain\<close>

text \<open>
  C10. For every nutrition record and category flag the FSA score lies between -15 and
  40, in the cap branch with fewer than 5 produce points it is at least 4, and the clamp
  to the range 0 to 100 leaves the normalized value as it is.
\<close>

theorem fsa_in_rescaling_domain:
  "let N = calculateNegativePoints nts nutrition isBeverage;
       P = calculatePositivePoints nts nutrition isBeverage;
       f = fsaScore (calculationDetails (calculateHealthScore nts nutrition isBeverage))
   in - 15 \<le> f \<and> f \<le> 40
      \<and> (11 \<le> N \<and> fvln P < 5 \<longrightarrow> 4 \<le> f)
      \<and> min 100 (max 0 (normalized f)) = normalized f"
  using fsa_bounds [of nts nutrition isBeverage]
    fsa_cap_branch_bound [of nts nutrition isBeverage]
    normalized_range [OF fsa_bounds, of nts nutrition isBeverage]
  by (simp add: Let_def)

theorem fsa_in_rescaling_domain_witness:
  "11 \<le> calculateNegativePoints integer_toString capped_record food
   \<and> fvln (calculatePositivePoints integer_toString capped_record food) < 5
   \<and> 4 \<le> fsaScore (calculationDetails (calculateHealthScore integer_toString capped_record food))
   \<and> fsaScore (calculationDetails (calculateHealthScore integer_toString capped_record food))
       \<le> 40"
  using fsa_in_rescaling_domain [of integer_toString capped_record food]
  by (simp add: Let_def capped_negative capped_positive)

section \<open>The ladders of the food category\<close>

lemma truthy_default_zero: "truthy (default_zero b) = truthy b"
  by (simp add: default_zero_def)

lemma negative_by_quantity:
  "calculateNegativePoints nts n b =
     (case thresholds (default_zero b) of
        (e, s, f, so) \<Rightarrow>
          exceeded (quantity nts Energy n) e + exceeded (quantity nts Sugars n) s
          + exceeded (quantity nts SaturatedFat n) f + exceeded (quantity nts Sodium n) so)"
  by (simp add: calculateNegativePoints_def Let_def quantity.simps split: prod.splits)

lemma upt_rungs: "[Suc 0..<11] = [1, 2, 3, 4, 5, 6, 7, 8, 9, 10]"
  by (simp add: upt_rec)

lemma food_thresholds:
  "\<not> truthy b \<Longrightarrow>
   thresholds (default_zero b) =
     (map (\<lambda>k. 80 * real k) [1..<11],
      [4.5, 9, 13.5, 18, 22.5, 27, 31, 36, 40, 45],
      map real [1..<11],
      map (\<lambda>k. 90 * real k) [1..<11])"
  by (simp add: thresholds_def truthy_default_zero upt_rungs)

lemma food_thresholds_list:
  "thresholds (default_zero food) =
     ([80, 160, 240, 320, 400, 480, 560, 640, 720, 800],
      [4.5, 9.0, 13.5, 18.0, 22.5, 27.0, 31.0, 36.0, 40.0, 45.0],
      [1, 2, 3, 4, 5, 6, 7, 8, 9, 10],
      [90, 180, 270, 360, 450, 540, 630, 720, 810, 900])"
  by (simp add: food_def default_zero_def thresholds_def)

lemma exceeded_Fin_card: "exceeded (Fin x) ts = card {i. i < length ts \<and> ts ! i < x}"
  by (simp add: exceeded_def length_filter_conv_card)

lemma exceeded_NaN: "exceeded NaN ts = 0"
  by (simp add: exceeded_def)

lemma sugars_31_quantities:
  "quantity nts Energy sugars_31 = Fin 0"
  "quantity nts Sugars sugars_31 = Fin 31.2"
  "quantity nts SaturatedFat sugars_31 = Fin 0"
  "quantity nts Sodium sugars_31 = Fin 0"
  by (simp_all add: quantity.simps engine_eval string_eval sugars_31_def)

lemma sugars_31_points: "calculateNegativePoints nts sugars_31 food = 7"
  unfolding negative_by_quantity food_thresholds_list prod.case sugars_31_quantities
  by (simp add: exceeded_def)

lemma sugars_31_on_even_ladder:
  "exceeded (quantity nts Sugars sugars_31) (map (\<lambda>k. 4.5 * real k) [1..<11]) = 6"
  unfolding sugars_31_quantities
  by (simp add: exceeded_def upt_rungs)

lemma sugar_ladder_uneven:
  "fst (snd (thresholds food)) \<noteq> map (\<lambda>k. 4.5 * real k) [1..<11]"
  by (simp add: food_def thresholds_def upt_rungs)

text \<open>
  The ladder of the sugars in the food category does not advance in steps of 4.5: its
  seventh and ninth breakpoints are 31 and 40, not 31.5 and 40.5. A food with 31.2 g of
  sugars exceeds seven breakpoints of the code's ladder and six of the evenly spaced one.
\<close>

theorem sugar_ladder_counterexample:
  "fst (snd (thresholds food)) \<noteq> map (\<lambda>k. 4.5 * real k) [1..<11]
   \<and> calculateNegativePoints integer_toString sugars_31 food = 7
   \<and> exceeded (quantity integer_toString Sugars sugars_31)
        (map (\<lambda>k. 4.5 * real k) [1..<11]) = 6"
  using sugar_ladder_uneven sugars_31_points [of integer_toString]
    sugars_31_on_even_ladder [of integer_toString]
  by blast

text \<open>
  C3, amended. When the category flag is falsy (food), the ladders of
  calculateNegativePoints are: energy 80, 160, ..., 800 (step 80); sugars 4.5, 9, 13.5,
  18, 22.5, 27, 31, 36, 40, 45; saturated fat 1, 2, ..., 10; sodium 90, 180, ..., 900
  (step 90). The negative points are the sum over the four nutrients of the points of
  the nutrient's quantity on its ladder, a quantity earns one point for each breakpoint
  it is strictly above, and NaN earns none.
\<close>

theorem food_ladders:
  assumes "\<not> truthy isBeverage"
  shows "thresholds (default_zero isBeverage) =
           (map (\<lambda>k. 80 * real k) [1..<11],
            [4.5, 9, 13.5, 18, 22.5, 27, 31, 36, 40, 45],
            map real [1..<11],
            map (\<lambda>k. 90 * real k) [1..<11])
         \<and> calculateNegativePoints nts nutrition isBeverage =
             exceeded (quantity nts Energy nutrition) (map (\<lambda>k. 80 * real k) [1..<11])
             + exceeded (quantity nts Sugars nutrition)
                 [4.5, 9, 13.5, 18, 22.5, 27, 31, 36, 40, 45]
             + exceeded (quantity nts SaturatedFat nutrition) (map real [1..<11])
             + exceeded (quantity nts Sodium nutrition) (map (\<lambda>k. 90 * real k) [1..<11])
         \<and> exceeded (Fin x) ts = card {i. i < length ts \<and> ts ! i < x}
         \<and> exceeded NaN ts = 0"
proof -
  note th = food_thresholds [OF assms]
  have "calculateNegativePoints nts nutrition isBeverage =
             exceeded (quantity nts Energy nutrition) (map (\<lambda>k. 80 * real k) [1..<11])
             + exceeded (quantity nts Sugars nutrition)
                 [4.5, 9, 13.5, 18, 22.5, 27, 31, 36, 40, 45]
             + exceeded (quantity nts SaturatedFat nutrition) (map real [1..<11])
             + exceeded (quantity nts Sodium nutrition) (map (\<lambda>k. 90 * real k) [1..<11])"
    unfolding negative_by_quantity th prod.case ..
  with th show ?thesis
    using exceeded_Fin_card [of x ts] exceeded_NaN [of ts] by blast
qed

theorem food_ladders_witness:
  "\<not> truthy food
   \<and> quantity integer_toString Sugars sugars_31 = Fin 31.2
   \<and> calculateNegativePoints integer_toString sugars_31 food = 7"
proof -
  have f: "\<not> truthy food" by (simp add: food_def)
  have "calculateNegativePoints integer_toString sugars_31 food =
             exceeded (Fin 0) (map (\<lambda>k. 80 * real k) [1..<11])
             + exceeded (Fin 31.2) [4.5, 9, 13.5, 18, 22.5, 27, 31, 36, 40, 45]
             + exceeded (Fin 0) (map real [1..<11])
             + exceeded (Fin 0) (map (\<lambda>k. 90 * real k) [1..<11])"
    using food_ladders [OF f, of integer_toString sugars_31 0 "[]"]
    unfolding sugars_31_quantities by (rule conjunct1 [OF conjunct2])
  also have "\<dots> = 7"
    by (simp add: exceeded_def upt_rungs)
  finally show ?thesis
    using f by (simp add: sugars_31_quantities)
qed

section \<open>Unit normalization\<close>

lemma parse_matched:
  assumes "truthy raw" and "matches (trim (toString nts raw)) = Some (m, u)"
  shows "parseNutritionValue nts raw ''mass'' =
           (if toLowerCase u = ''mg'' then jdiv (parseFloat m) 1000
            else if toLowerCase u = ''mcg'' then jdiv (parseFloat m) 1000000
            else parseFloat m)"
    and "parseNutritionValue nts raw ''percentage'' =
           (if toLowerCase u = ''%'' then parseFloat m else Fin 0)"
  using assms by (simp_all add: parseNutritionValue_def Let_def)

lemma parse_unmatched:
  assumes "\<not> truthy raw \<or> matches (trim (toString nts raw)) = None"
  shows "parseNutritionValue nts raw t = Fin 0"
  using assms by (auto simp: parseNutritionValue_def)

lemma unit_examples:
  "parseNutritionValue nts (JStr ''1000mg'') ''mass'' = Fin 1"
  "parseNutritionValue nts (JStr ''1g'') ''mass'' = Fin 1"
  "parseNutritionValue nts (JStr ''1mcg'') ''mass'' = Fin 0.000001"
  "parseNutritionValue nts (JStr [CHR ''1'', CHR 0xB5, CHR ''g'']) ''mass'' = Fin 1"
  "parseNutritionValue nts (JStr ''4.184kj'') ''energy'' = Fin 1"
  "parseNutritionValue nts (JStr ''1g'') ''sodium'' = Fin 1000"
  "parseNutritionValue nts (JStr ''80'') ''percentage'' = Fin 0"
  "parseNutritionValue nts (JStr ''80%'') ''percentage'' = Fin 80"
  by (simp_all add: parseNutritionValue_def Let_def string_eval)

lemma matches_examples:
  "matches (trim ''250MG'') = Some (''250'', ''MG'')"
  "matches (trim ''80%'') = Some (''80'', ''%'')"
  "matches (trim ''80'') = Some (''80'', [])"
  "matches (trim ''n/a'') = None"
  by (simp_all add: string_eval)

text \<open>
  The micro sign (code unit 0xB5) is not in the class of the unit group, so a 1
  followed by the micro sign and \<^verbatim>\<open>g\<close> is read as the magnitude 1 with an empty
  unit, and a mass of 1 gram comes out, not 0.000001.
\<close>

theorem micro_sign_counterexample:
  "parseNutritionValue integer_toString (JStr [CHR ''1'', CHR 0xB5, CHR ''g'']) ''mass'' = Fin 1
   \<and> parseNutritionValue integer_toString (JStr [CHR ''1'', CHR 0xB5, CHR ''g'']) ''mass''
       \<noteq> Fin 0.000001"
  by (simp add: unit_examples)

text \<open>
  C4, amended. For a mass-family input whose text matches with magnitude \<open>m\<close> and unit
  \<open>u\<close>, the result is the magnitude divided by 1000 when the unit, in lower case, is
  \<^verbatim>\<open>mg\<close>, divided by 1,000,000 when it is \<^verbatim>\<open>mcg\<close>, and the magnitude as it is
  otherwise. So \<^verbatim>\<open>1000mg\<close> and \<^verbatim>\<open>1g\<close> give 1, \<^verbatim>\<open>1mcg\<close> gives 0.000001, a 1 followed
  by the micro sign and \<^verbatim>\<open>g\<close> gives 1, \<^verbatim>\<open>4.184kj\<close> as energy gives 1 and \<^verbatim>\<open>1g\<close> as
  sodium gives 1000.
\<close>

theorem mass_normalization:
  "(truthy raw \<and> matches (trim (toString nts raw)) = Some (m, u) \<longrightarrow>
      parseNutritionValue nts raw ''mass'' =
        (if toLowerCase u = ''mg'' then jdiv (parseFloat m) 1000
         else if toLowerCase u = ''mcg'' then jdiv (parseFloat m) 1000000
         else parseFloat m))
   \<and> parseNutritionValue nts (JStr ''1000mg'') ''mass'' = Fin 1
   \<and> parseNutritionValue nts (JStr ''1g'') ''mass'' = Fin 1
   \<and> parseNutritionValue nts (JStr ''1mcg'') ''mass'' = Fin 0.000001
   \<and> parseNutritionValue nts (JStr [CHR ''1'', CHR 0xB5, CHR ''g'']) ''mass'' = Fin 1
   \<and> parseNutritionValue nts (JStr ''4.184kj'') ''energy'' = Fin 1
   \<and> parseNutritionValue nts (JStr ''1g'') ''sodium'' = Fin 1000"
  using parse_matched(1) [of raw nts m u] unit_examples [of nts]
  by blast

theorem mass_normalization_witness:
  "truthy (JStr ''250MG'')
   \<and> matches (trim (toString integer_toString (JStr ''250MG''))) = Some (''250'', ''MG'')
   \<and> parseNutritionValue integer_toString (JStr ''250MG'') ''mass'' = Fin 0.25"
proof -
  have t: "truthy (JStr ''250MG'')" by simp
  have m: "matches (trim (toString integer_toString (JStr ''250MG''))) = Some (''250'', ''MG'')"
    by (simp add: matches_examples)
  have l: "toLowerCase ''MG'' = ''mg''" by (simp add: string_eval)
  have p: "parseFloat ''250'' = Fin 250" by (simp add: string_eval)
  from mass_normalization [of "JStr ''250MG''" integer_toString "''250''" "''MG''"] t m
  have "parseNutritionValue integer_toString (JStr ''250MG'') ''mass'' =
          (if toLowerCase ''MG'' = ''mg'' then jdiv (parseFloat ''250'') 1000
           else if toLowerCase ''MG'' = ''mcg'' then jdiv (parseFloat ''250'') 1000000
           else parseFloat ''250'')"
    by blast
  then have "parseNutritionValue integer_toString (JStr ''250MG'') ''mass'' = Fin 0.25"
    unfolding l p by simp
  with t m show ?thesis by blast
qed

section \<open>The percentage dimension\<close>

lemma lower_char_percent: "lower_char c = CHR ''%'' \<longleftrightarrow> c = CHR ''%''"
proof
  assume h: "lower_char c = CHR ''%''"
  show "c = CHR ''%''"
  proof (cases "65 \<le> (of_char c :: nat) \<and> (of_char c :: nat) \<le> 90")
    case True
    then have "(of_char (lower_char c) :: nat) = (of_char c + 32) mod 256"
      by (simp add: lower_char_def)
    with True have "(of_char (lower_char c) :: nat) \<ge> 97" by simp
    with h show ?thesis by simp
  next
    case False
    with h show ?thesis by (simp add: lower_char_def)
  qed
qed (simp add: lower_char_def)

lemma toLowerCase_percent: "toLowerCase u = ''%'' \<longleftrightarrow> u = ''%''"
  by (cases u) (auto simp: toLowerCase_def lower_char_percent)

text \<open>
  C5. For the percentage dimension the result is the parsed magnitude when the matched
  unit is exactly \<^verbatim>\<open>%\<close>, and 0 for any other unit, for no unit, and when nothing
  matches or the raw value is falsy; \<^verbatim>\<open>80\<close> gives 0 and \<^verbatim>\<open>80%\<close> gives 80.
\<close>

theorem percentage_strictness:
  "(truthy raw \<and> matches (trim (toString nts raw)) = Some (m, u) \<longrightarrow>
      parseNutritionValue nts raw ''percentage'' = (if u = ''%'' then parseFloat m else Fin 0))
   \<and> (\<not> truthy raw \<or> matches (trim (toString nts raw)) = None \<longrightarrow>
      parseNutritionValue nts raw ''percentage'' = Fin 0)
   \<and> parseNutritionValue nts (JStr ''80'') ''percentage'' = Fin 0
   \<and> parseNutritionValue nts (JStr ''80%'') ''percentage'' = Fin 80"
  using parse_matched(2) [of raw nts m u] parse_unmatched [of raw nts "''percentage''"]
    unit_examples(7,8) [of nts]
  unfolding toLowerCase_percent by blast

theorem percentage_strictness_witness:
  "truthy (JStr ''80%'')
   \<and> matches (trim (toString integer_toString (JStr ''80%''))) = Some (''80'', ''%'')
   \<and> parseNutritionValue integer_toString (JStr ''80%'') ''percentage'' = parseFloat ''80''
   \<and> matches (trim (toString integer_toString (JStr ''n/a''))) = None
   \<and> parseNutritionValue integer_toString (JStr ''n/a'') ''percentage'' = Fin 0"
proof -
  have t: "truthy (JStr ''80%'')" by simp
  have m: "matches (trim (toString integer_toString (JStr ''80%''))) = Some (''80'', ''%'')"
    by (simp add: matches_examples)
  have n: "matches (trim (toString integer_toString (JStr ''n/a''))) = None"
    by (simp add: matches_examples)
  from percentage_strictness [of "JStr ''80%''" integer_toString "''80''" "''%''"] t m
  have a: "parseNutritionValue integer_toString (JStr ''80%'') ''percentage'' = parseFloat ''80''"
    by simp
  from percentage_strictness [of "JStr ''n/a''" integer_toString "[]" "[]"] n
  have b: "parseNutritionValue integer_toString (JStr ''n/a'') ''percentage'' = Fin 0"
    by blast
  from t m n a b show ?thesis by blast
qed

section \<open>Input without a parseable number\<close>

text \<open>
  C6. A malformed input should give 0. The text \<^verbatim>\<open>.\<close> matches the pattern, since a dot
  is in the class of the first group, \<^verbatim>\<open>parseFloat\<close> of a lone dot is NaN, and
  parseNutritionValue returns that NaN.
\<close>

theorem lone_dot_parses_to_NaN:
  "matches (trim ''.'') = Some (''.'', [])
   \<and> parseFloat ''.'' = NaN
   \<and> parseNutritionValue nts (JStr ''.'') ''mass'' = NaN"
  by (simp add: parseNutritionValue_def Let_def string_eval)

section \<open>Where the saturated fat is read\<close>

lemma negative_depends_on_fields:
  assumes "get_prop n1 ''energy'' = get_prop n2 ''energy''"
    and "get_prop n1 ''TotalSugars'' = get_prop n2 ''TotalSugars''"
    and "get_prop n1 ''sugars'' = get_prop n2 ''sugars''"
    and "get_prop n1 ''saturatedFat'' = get_prop n2 ''saturatedFat''"
    and "get_prop n1 ''sodium'' = get_prop n2 ''sodium''"
  shows "calculateNegativePoints nts n1 b = calculateNegativePoints nts n2 b"
  using assms by (simp add: calculateNegativePoints_def)

lemma stored_depends_on_fields:
  assumes "get_prop n1 ''energy'' = get_prop n2 ''energy''"
    and "get_prop n1 ''TotalSugars'' = get_prop n2 ''TotalSugars''"
    and "get_prop n1 ''sugars'' = get_prop n2 ''sugars''"
    and "opt_prop (get_prop n1 ''customNutritionFields'') ''saturatedFat''
         = opt_prop (get_prop n2 ''customNutritionFields'') ''saturatedFat''"
    and "get_prop n1 ''sodium'' = get_prop n2 ''sodium''"
  shows "calculateNegativePoints_stored nts n1 = calculateNegativePoints_stored nts n2"
  using assms by (simp add: calculateNegativePoints_stored_def)

lemma satfat_points:
  "calculateNegativePoints nts satfat_top_level food = 4"
  "calculateNegativePoints nts satfat_nested food = 0"
  "calculateNegativePoints_stored nts satfat_nested = 1"
  "calculateNegativePoints_stored nts satfat_top_level = 0"
  by (simp_all add: engine_eval string_eval calculateNegativePoints_stored_def
      parseNutritionValue_stored_def satfat_top_level_def satfat_nested_def food_def)

text \<open>
  A record that carries 5 g of saturated fat at top level gets 4 negative points; the
  record that carries the same 5 g only in the nested custom fields gets none. In the
  variant that reads the stored record it is the other way round: 1 point for the
  nested entry, none for the top-level field.
\<close>

theorem nested_saturated_fat_counterexample:
  "calculateNegativePoints integer_toString satfat_top_level food = 4
   \<and> calculateNegativePoints integer_toString satfat_nested food = 0
   \<and> calculateNegativePoints_stored integer_toString satfat_nested = 1
   \<and> calculateNegativePoints_stored integer_toString satfat_top_level = 0"
  by (simp add: satfat_points)

lemma zero_on_satfat_ladder:
  "thresholds b = (e, s, f, so) \<Longrightarrow> exceeded (Fin 0) f = 0"
  by (auto simp: thresholds_def exceeded_def split: if_splits)

lemma absent_reads_zero:
  "\<not> truthy v \<Longrightarrow> parseNutritionValue nts (jor v (JStr ''0'')) ''mass'' = Fin 0"
  by (simp add: jor_def parseNutritionValue_def Let_def string_eval)

lemma absent_reads_zero_stored:
  "\<not> truthy v \<Longrightarrow> parseNutritionValue_stored nts (jor v (JStr ''0'')) ''mass'' = Fin 0"
  by (simp add: jor_def parseNutritionValue_stored_def Let_def string_eval)

lemma negative_with_satfat:
  assumes "thresholds (default_zero b) = (e, s, f, so)"
  shows "calculateNegativePoints nts n b =
           exceeded (quantity nts Energy n) e + exceeded (quantity nts Sugars n) s
           + exceeded (parseNutritionValue nts
                (jor (get_prop n ''saturatedFat'') (JStr ''0'')) ''mass'') f
           + exceeded (quantity nts Sodium n) so"
  unfolding negative_by_quantity assms prod.case quantity.simps ..

lemma negative_without_satfat:
  assumes th: "thresholds (default_zero b) = (e, s, f, so)"
    and absent: "\<not> truthy (get_prop n ''saturatedFat'')"
  shows "exceeded (parseNutritionValue nts
            (jor (get_prop n ''saturatedFat'') (JStr ''0'')) ''mass'') f = 0"
    and "calculateNegativePoints nts n b =
           exceeded (quantity nts Energy n) e + exceeded (quantity nts Sugars n) s
           + exceeded (quantity nts Sodium n) so"
proof -
  show z: "exceeded (parseNutritionValue nts
            (jor (get_prop n ''saturatedFat'') (JStr ''0'')) ''mass'') f = 0"
    unfolding absent_reads_zero [OF absent] using th by (rule zero_on_satfat_ladder)
  show "calculateNegativePoints nts n b =
           exceeded (quantity nts Energy n) e + exceeded (quantity nts Sugars n) s
           + exceeded (quantity nts Sodium n) so"
    unfolding negative_with_satfat [OF th] z by simp
qed

lemma stored_with_satfat:
  "calculateNegativePoints_stored nts n =
     exceeded (parseNutritionValue_stored nts
        (jor (get_prop n ''energy'') (JStr ''0'')) ''energy'')
       [80, 160, 240, 320, 400, 480, 560, 640, 720, 800]
     + exceeded (parseNutritionValue_stored nts
        (jor (jor (get_prop n ''TotalSugars'') (get_prop n ''sugars'')) (JStr ''0'')) ''mass'')
       [7.2, 14.3, 21.5, 28.5, 35.9, 43.0, 50.2, 57.4, 64.5]
     + exceeded (parseNutritionValue_stored nts
        (jor (opt_prop (get_prop n ''customNutritionFields'') ''saturatedFat'') (JStr ''0''))
        ''mass'')
       [4.5, 9.0, 13.5, 18.0, 22.5, 27.0, 31.0, 36.0, 40.0, 45.0]
     + exceeded (parseNutritionValue_stored nts
        (jor (get_prop n ''sodium'') (JStr ''0'')) ''sodium'')
       [90, 180, 270, 360, 450, 540, 630, 720, 810, 900]"
  by (simp add: calculateNegativePoints_stored_def Let_def)

lemma stored_without_satfat:
  assumes "\<not> truthy (opt_prop (get_prop n ''customNutritionFields'') ''saturatedFat'')"
  shows "exceeded (parseNutritionValue_stored nts
        (jor (opt_prop (get_prop n ''customNutritionFields'') ''saturatedFat'') (JStr ''0''))
        ''mass'')
       [4.5, 9.0, 13.5, 18.0, 22.5, 27.0, 31.0, 36.0, 40.0, 45.0] = 0"
  unfolding absent_reads_zero_stored [OF assms] by (simp add: exceeded_def)

lemma satfat_nested_quantities:
  "quantity nts Energy satfat_nested = Fin 0"
  "quantity nts Sugars satfat_nested = Fin 0"
  "quantity nts Sodium satfat_nested = Fin 0"
  by (simp_all add: quantity.simps engine_eval string_eval satfat_nested_def)

lemma satfat_top_level_quantities:
  "quantity nts Energy satfat_top_level = Fin 0"
  "quantity nts Sugars satfat_top_level = Fin 0"
  "quantity nts Sodium satfat_top_level = Fin 0"
  "parseNutritionValue nts (jor (get_prop satfat_top_level ''saturatedFat'') (JStr ''0''))
     ''mass'' = Fin 5"
  by (simp_all add: quantity.simps engine_eval string_eval satfat_top_level_def)

text \<open>
  C7, amended. calculateNegativePoints resolves the saturated fat from the top-level
  \<^verbatim>\<open>saturatedFat\<close> field alone: its saturated-fat points are the points, on the
  category's ladder, of the normalized mass of that field (of \<^verbatim>\<open>'0'\<close> when the field
  is absent or falsy). A record without a truthy top-level field therefore gets zero
  saturated-fat points, whatever its nested custom fields hold, and two records that
  agree on the top-level fields \<^verbatim>\<open>energy\<close>, \<^verbatim>\<open>TotalSugars\<close>, \<^verbatim>\<open>sugars\<close>,
  \<^verbatim>\<open>saturatedFat\<close> and \<^verbatim>\<open>sodium\<close> get the same negative points. The variant that
  reads the record from the document store resolves it, in the same way, from the nested
  \<^verbatim>\<open>customNutritionFields.saturatedFat\<close> alone, whatever the top-level field holds.
\<close>

theorem saturated_fat_resolution:
  "(thresholds (default_zero isBeverage) = (e, s, f, so) \<longrightarrow>
      calculateNegativePoints nts n isBeverage =
        exceeded (quantity nts Energy n) e + exceeded (quantity nts Sugars n) s
        + exceeded (parseNutritionValue nts
             (jor (get_prop n ''saturatedFat'') (JStr ''0'')) ''mass'') f
        + exceeded (quantity nts Sodium n) so)
   \<and> (thresholds (default_zero isBeverage) = (e, s, f, so)
      \<and> \<not> truthy (get_prop n ''saturatedFat'') \<longrightarrow>
      exceeded (parseNutritionValue nts
         (jor (get_prop n ''saturatedFat'') (JStr ''0'')) ''mass'') f = 0
      \<and> calculateNegativePoints nts n isBeverage =
          exceeded (quantity nts Energy n) e + exceeded (quantity nts Sugars n) s
          + exceeded (quantity nts Sodium n) so)
   \<and> (get_prop n ''energy'' = get_prop n' ''energy''
    \<and> get_prop n ''TotalSugars'' = get_prop n' ''TotalSugars''
    \<and> get_prop n ''sugars'' = get_prop n' ''sugars''
    \<and> get_prop n ''saturatedFat'' = get_prop n' ''saturatedFat''
    \<and> get_prop n ''sodium'' = get_prop n' ''sodium''
    \<longrightarrow> calculateNegativePoints nts n isBeverage = calculateNegativePoints nts n' isBeverage)
   \<and> calculateNegativePoints_stored nts n =
       exceeded (parseNutritionValue_stored nts
          (jor (get_prop n ''energy'') (JStr ''0'')) ''energy'')
         [80, 160, 240, 320, 400, 480, 560, 640, 720, 800]
       + exceeded (parseNutritionValue_stored nts
          (jor (jor (get_prop n ''TotalSugars'') (get_prop n ''sugars'')) (JStr ''0'')) ''mass'')
         [7.2, 14.3, 21.5, 28.5, 35.9, 43.0, 50.2, 57.4, 64.5]
       + exceeded (parseNutritionValue_stored nts
          (jor (opt_prop (get_prop n ''customNutritionFields'') ''saturatedFat'') (JStr ''0''))
          ''mass'')
         [4.5, 9.0, 13.5, 18.0, 22.5, 27.0, 31.0, 36.0, 40.0, 45.0]
       + exceeded (parseNutritionValue_stored nts
          (jor (get_prop n ''sodium'') (JStr ''0'')) ''sodium'')
         [90, 180, 270, 360, 450, 540, 630, 720, 810, 900]
   \<and> (\<not> truthy (opt_prop (get_prop n ''customNutritionFields'') ''saturatedFat'') \<longrightarrow>
        exceeded (parseNutritionValue_stored nts
          (jor (opt_prop (get_prop n ''customNutritionFields'') ''saturatedFat'') (JStr ''0''))
          ''mass'')
         [4.5, 9.0, 13.5, 18.0, 22.5, 27.0, 31.0, 36.0, 40.0, 45.0] = 0)
   \<and> (get_prop n ''energy'' = get_prop n' ''energy''
    \<and> get_prop n ''TotalSugars'' = get_prop n' ''TotalSugars''
    \<and> get_prop n ''sugars'' = get_prop n' ''sugars''
    \<and> opt_prop (get_prop n ''customNutritionFields'') ''saturatedFat''
        = opt_prop (get_prop n' ''customNutritionFields'') ''saturatedFat''
    \<and> get_prop n ''sodium'' = get_prop n' ''sodium''
    \<longrightarrow> calculateNegativePoints_stored nts n = calculateNegativePoints_stored nts n')"
proof (intro conjI impI)
  show "calculateNegativePoints_stored nts n =
       exceeded (parseNutritionValue_stored nts
          (jor (get_prop n ''energy'') (JStr ''0'')) ''energy'')
         [80, 160, 240, 320, 400, 480, 560, 640, 720, 800]
       + exceeded (parseNutritionValue_stored nts
          (jor (jor (get_prop n ''TotalSugars'') (get_prop n ''sugars'')) (JStr ''0'')) ''mass'')
         [7.2, 14.3, 21.5, 28.5, 35.9, 43.0, 50.2, 57.4, 64.5]
       + exceeded (parseNutritionValue_stored nts
          (jor (opt_prop (get_prop n ''customNutritionFields'') ''saturatedFat'') (JStr ''0''))
          ''mass'')
         [4.5, 9.0, 13.5, 18.0, 22.5, 27.0, 31.0, 36.0, 40.0, 45.0]
       + exceeded (parseNutritionValue_stored nts
          (jor (get_prop n ''sodium'') (JStr ''0'')) ''sodium'')
         [90, 180, 270, 360, 450, 540, 630, 720, 810, 900]"
    by (rule stored_with_satfat)
qed (erule negative_with_satfat negative_without_satfat stored_without_satfat
      | (elim conjE, erule (1) negative_without_satfat)
      | (elim conjE, erule (4) negative_depends_on_fields)
      | (elim conjE, erule (4) stored_depends_on_fields))+

theorem saturated_fat_resolution_witness:
  "thresholds (default_zero food) =
     ([80, 160, 240, 320, 400, 480, 560, 640, 720, 800],
      [4.5, 9.0, 13.5, 18.0, 22.5, 27.0, 31.0, 36.0, 40.0, 45.0],
      [1, 2, 3, 4, 5, 6, 7, 8, 9, 10],
      [90, 180, 270, 360, 450, 540, 630, 720, 810, 900])
   \<and> calculateNegativePoints integer_toString satfat_top_level food
       = exceeded (Fin 5) [1, 2, 3, 4, 5, 6, 7, 8, 9, 10]
   \<and> \<not> truthy (get_prop satfat_nested ''saturatedFat'')
   \<and> calculateNegativePoints integer_toString satfat_nested food = 0
   \<and> get_prop satfat_top_level ''saturatedFat'' = get_prop satfat_both ''saturatedFat''
   \<and> get_prop satfat_top_level ''customNutritionFields''
       \<noteq> get_prop satfat_both ''customNutritionFields''
   \<and> calculateNegativePoints integer_toString satfat_both food = 4
   \<and> \<not> truthy (opt_prop (get_prop satfat_top_level ''customNutritionFields'') ''saturatedFat'')
   \<and> calculateNegativePoints_stored integer_toString satfat_top_level = 0
   \<and> opt_prop (get_prop satfat_nested ''customNutritionFields'') ''saturatedFat''
       = opt_prop (get_prop satfat_nested_other ''customNutritionFields'') ''saturatedFat''
   \<and> get_prop satfat_nested ''saturatedFat'' \<noteq> get_prop satfat_nested_other ''saturatedFat''
   \<and> calculateNegativePoints_stored integer_toString satfat_nested_other = 1"
proof -
  note th = food_thresholds_list
  note top = saturated_fat_resolution
    [where isBeverage = food and nts = integer_toString and n = satfat_top_level
       and n' = satfat_both and e = "[80, 160, 240, 320, 400, 480, 560, 640, 720, 800]"
       and s = "[4.5, 9.0, 13.5, 18.0, 22.5, 27.0, 31.0, 36.0, 40.0, 45.0]"
       and f = "[1, 2, 3, 4, 5, 6, 7, 8, 9, 10]"
       and so = "[90, 180, 270, 360, 450, 540, 630, 720, 810, 900]"]
  note nested = saturated_fat_resolution
    [where isBeverage = food and nts = integer_toString and n = satfat_nested
       and n' = satfat_nested_other and e = "[80, 160, 240, 320, 400, 480, 560, 640, 720, 800]"
       and s = "[4.5, 9.0, 13.5, 18.0, 22.5, 27.0, 31.0, 36.0, 40.0, 45.0]"
       and f = "[1, 2, 3, 4, 5, 6, 7, 8, 9, 10]"
       and so = "[90, 180, 270, 360, 450, 540, 630, 720, 810, 900]"]
  have g: "get_prop satfat_top_level k = get_prop satfat_both k"
    if "k \<noteq> ''customNutritionFields''" for k
    using that by (simp add: get_prop_def satfat_top_level_def satfat_both_def)
  have h: "get_prop satfat_nested k = get_prop satfat_nested_other k"
    if "k \<noteq> ''saturatedFat''" for k
    using that by (simp add: get_prop_def satfat_nested_def satfat_nested_other_def)
  have d: "get_prop satfat_top_level ''customNutritionFields''
            \<noteq> get_prop satfat_both ''customNutritionFields''"
    "get_prop satfat_nested ''saturatedFat'' \<noteq> get_prop satfat_nested_other ''saturatedFat''"
    by (simp_all add: get_prop_def satfat_top_level_def satfat_both_def satfat_nested_def
        satfat_nested_other_def)
  have u: "\<not> truthy (get_prop satfat_nested ''saturatedFat'')"
    "\<not> truthy (opt_prop (get_prop satfat_top_level ''customNutritionFields'') ''saturatedFat'')"
    by (simp_all add: get_prop_def satfat_nested_def satfat_top_level_def)
  have z: "exceeded (Fin 0) ts = 0" if "\<forall>t \<in> set ts. 0 \<le> t" for ts
    using that by (induction ts) (auto simp: exceeded_def)
  have p: "calculateNegativePoints integer_toString satfat_top_level food
             = exceeded (Fin 5) [1, 2, 3, 4, 5, 6, 7, 8, 9, 10]"
    using top th by (simp add: satfat_top_level_quantities z)
  have q: "calculateNegativePoints integer_toString satfat_nested food = 0"
    using nested th u(1) by (simp add: satfat_nested_quantities z)
  have a: "calculateNegativePoints integer_toString satfat_top_level food
           = calculateNegativePoints integer_toString satfat_both food"
    using top by (simp add: g)
  have b: "calculateNegativePoints_stored integer_toString satfat_nested
           = calculateNegativePoints_stored integer_toString satfat_nested_other"
    using nested by (simp add: h)
  from th p q u a b d g [of "''saturatedFat''"] h [of "''customNutritionFields''"]
  show ?thesis
    by (simp add: satfat_points)
qed

section \<open>Monotonicity of the negative points\<close>

lemma exceeded_mono: "jle x y \<Longrightarrow> exceeded x ts \<le> exceeded y ts"
proof (induction ts)
  case Nil
  then show ?case by (simp add: exceeded_def)
next
  case (Cons t ts)
  from Cons.prems obtain a b where xy: "x = Fin a" "y = Fin b" "a \<le> b"
    by (cases x; cases y) simp_all
  from Cons.IH [OF Cons.prems] xy(3) show ?case
    by (auto simp: exceeded_def xy(1,2))
qed

lemma quantity_agree:
  assumes "\<forall>k. k \<notin> fields_of d \<longrightarrow> get_prop n1 k = get_prop n2 k"
    and "d' \<noteq> d"
  shows "quantity nts d' n1 = quantity nts d' n2"
  using assms by (cases d; cases d') (simp_all add: quantity.simps)

lemma sugars_quantities:
  "quantity nts Sugars sugars_5 = Fin 5"
  "quantity nts Sugars sugars_31 = Fin 31.2"
  by (simp_all add: quantity.simps engine_eval string_eval sugars_5_def sugars_31_def)

text \<open>
  C9. In either category, for two records that agree on every field other than those of
  one nutrient among energy, sugars, saturated fat and sodium: if the normalized quantity
  of that nutrient in the first is less than or equal to the one in the second, the
  first has at most the negative points of the second.
\<close>

theorem negative_points_monotone:
  assumes agree: "\<forall>k. k \<notin> fields_of d \<longrightarrow> get_prop n1 k = get_prop n2 k"
    and le: "jle (quantity nts d n1) (quantity nts d n2)"
  shows "calculateNegativePoints nts n1 isBeverage \<le> calculateNegativePoints nts n2 isBeverage"
proof -
  obtain e s f so where th: "thresholds (default_zero isBeverage) = (e, s, f, so)"
    by (metis prod_cases4)
  have other: "quantity nts d' n1 = quantity nts d' n2" if "d' \<noteq> d" for d'
    using agree that by (rule quantity_agree)
  have step: "exceeded (quantity nts d' n1) ts \<le> exceeded (quantity nts d' n2) ts" for d' ts
  proof (cases "d' = d")
    case True
    with le show ?thesis by (simp add: exceeded_mono)
  next
    case False
    then show ?thesis by (simp add: other)
  qed
  show ?thesis
    unfolding negative_by_quantity th prod.case
    by (intro add_mono step)
qed

theorem negative_points_monotone_witness:
  "jle (quantity integer_toString Sugars sugars_5) (quantity integer_toString Sugars sugars_31)
   \<and> calculateNegativePoints integer_toString sugars_5 beverage
       \<le> calculateNegativePoints integer_toString sugars_31 beverage"
proof -
  have agree: "\<forall>k. k \<notin> fields_of Sugars \<longrightarrow> get_prop sugars_5 k = get_prop sugars_31 k"
    by (simp add: get_prop_def sugars_5_def sugars_31_def)
  have le: "jle (quantity integer_toString Sugars sugars_5)
              (quantity integer_toString Sugars sugars_31)"
    by (simp add: sugars_quantities)
  from le negative_points_monotone [OF agree le, of beverage] show ?thesis
    by (rule conjI)
qed

end
